theory Spec2Isabelle
  imports Main "HOL-Library.Sublist"
begin

section \<open>The logging configuration module \<open>valuecell/utils/logger.py\<close>\<close>

text \<open>
  The module has two functions with behaviour of their own, \<open>get_log_dir\<close> and
  \<open>setup_logger\<close>. Both read the process environment; \<open>setup_logger\<close> then issues
  a fixed sequence of calls to the logging backend (loguru) and to the filesystem.
  The model keeps that split: the sequence of calls is computed from the arguments and
  the environment exactly as the source writes it, and a small interpreter runs the calls
  against a state made of the backend's handler registry, the directories on disk and the
  records emitted so far. An exception of a call stops the run there, since the source has
  no \<open>try\<close>.
\<close>

subsection \<open>Environment and paths\<close>

text \<open>\<open>os.environ\<close>: a variable is absent (\<open>None\<close>) or bound to a string, possibly empty.\<close>

type_synonym environ = "string \<rightharpoonup> string"

text \<open>
  \<open>pathlib.Path\<close> values, kept symbolic: \<open>Path s\<close> is the constructor call on a string and
  \<open>Div p s\<close> is \<open>p / s\<close>. No normalisation of the text is modelled.
\<close>

datatype path = Path string | Div path string

text \<open>\<open>os.getenv(key)\<close> and \<open>os.getenv(key, default)\<close>.\<close>

definition getenv :: "environ \<Rightarrow> string \<Rightarrow> string option" where
  "getenv env key = env key"

definition getenv_default :: "environ \<Rightarrow> string \<Rightarrow> string \<Rightarrow> string" where
  "getenv_default env key dflt = (case env key of None \<Rightarrow> dflt | Some v \<Rightarrow> v)"

text \<open>
  \<open>get_log_dir\<close>. The helper \<open>get_system_env_dir\<close> lives in another module; the path it
  returns is the parameter \<open>system_env_dir\<close>. The test \<open>if log_dir_env:\<close> is false for
  \<open>None\<close> and for the empty string.
\<close>

definition get_log_dir :: "environ \<Rightarrow> path \<Rightarrow> path" where
  "get_log_dir env system_env_dir =
     (case getenv env ''LOG_DIR'' of
        Some log_dir_env \<Rightarrow>
          if log_dir_env \<noteq> [] then Path log_dir_env else Div system_env_dir ''logs''
      | None \<Rightarrow> Div system_env_dir ''logs'')"

subsection \<open>Strings\<close>

text \<open>
  A \<open>str\<close> is held as the bytes of its UTF-8 encoding, so a text is ASCII when every byte
  is below 128 (\<open>str.isascii()\<close>).
\<close>

definition isascii :: "string \<Rightarrow> bool" where
  "isascii s = list_all (\<lambda>c. (of_char c :: nat) < 128) s"

text \<open>
  \<open>str.upper()\<close>. On ASCII text the letters \<open>a\<close> to \<open>z\<close> move to \<open>A\<close> to \<open>Z\<close> and every
  other character stays. On any other text the interpreter applies the full case mapping
  of the Unicode standard, which can also change the length of the text (a sharp s becomes
  \<open>SS\<close>); that table belongs to the interpreter, not to this module, and is the parameter
  \<open>unicode_upper\<close>.
\<close>

definition upper_char :: "char \<Rightarrow> char" where
  "upper_char c =
     (let n = (of_char c :: nat) in if 97 \<le> n \<and> n \<le> 122 then char_of (n - 32) else c)"

definition upper :: "(string \<Rightarrow> string) \<Rightarrow> string \<Rightarrow> string" where
  "upper unicode_upper s = (if isascii s then map upper_char s else unicode_upper s)"

subsection \<open>Sinks, calls and the state they act on\<close>

datatype target = Stderr | File path

text \<open>
  The keyword arguments of one \<open>logger.add\<close> call. An argument the source does not pass
  is \<open>None\<close>.
\<close>

record sink =
  sink_target :: target
  sink_format :: string
  sink_level :: string
  sink_colorize :: "bool option"
  sink_rotation :: "string option"
  sink_retention :: "string option"
  sink_compression :: "string option"
  sink_encoding :: "string option"
  sink_enqueue :: "bool option"
  sink_backtrace :: "bool option"
  sink_diagnose :: "bool option"

text \<open>
  The two f-strings of \<open>setup_logger\<close>, kept as the template and its interpolated values:
  the line announcing the log directory, and the line reporting level, console flag and
  file flag.
\<close>

datatype message = Msg_log_dir path | Msg_configured string bool bool

datatype call =
    Logger_remove
  | Logger_add sink
  | Path_mkdir path bool bool
  | Logger_info message
  | Logger_debug message

text \<open>The parameters of \<open>setup_logger\<close> and their defaults.\<close>

record args =
  log_level :: string
  log_dir :: "path option"
  rotation :: string
  retention :: string
  compression :: string
  enable_console :: bool
  enable_file :: bool

definition default_args :: args where
  "default_args =
     \<lparr>log_level = ''INFO'', log_dir = None, rotation = ''10 MB'', retention = ''30 days'',
      compression = ''zip'', enable_console = True, enable_file = True\<rparr>"

definition console_format :: string where
  "console_format =
     ''<green>{time:YYYY-MM-DD HH:mm:ss}</green> | <level>{level: <8}</level> | <cyan>{name}</cyan>:<cyan>{function}</cyan>:<cyan>{line}</cyan> - <level>{message}</level>''"

definition file_format :: string where
  "file_format =
     ''{time:YYYY-MM-DD HH:mm:ss} | {level: <8} | {name}:{function}:{line} - {message}''"

definition error_format :: string where
  "error_format = file_format @ [CHR 0x0A] @ ''{exception}''"

definition console_sink :: "string \<Rightarrow> sink" where
  "console_sink lvl =
     \<lparr>sink_target = Stderr, sink_format = console_format, sink_level = lvl,
      sink_colorize = Some True, sink_rotation = None, sink_retention = None,
      sink_compression = None, sink_encoding = None, sink_enqueue = None,
      sink_backtrace = None, sink_diagnose = None\<rparr>"

definition combined_sink :: "path \<Rightarrow> string \<Rightarrow> string \<Rightarrow> string \<Rightarrow> sink" where
  "combined_sink dir rot ret cmpr =
     \<lparr>sink_target = File (Div dir ''valuecell_{time:YYYY-MM-DD}.log''),
      sink_format = file_format, sink_level = ''DEBUG'',
      sink_colorize = None, sink_rotation = Some rot, sink_retention = Some ret,
      sink_compression = Some cmpr, sink_encoding = Some ''utf-8'', sink_enqueue = Some True,
      sink_backtrace = None, sink_diagnose = None\<rparr>"

definition error_sink :: "path \<Rightarrow> string \<Rightarrow> string \<Rightarrow> string \<Rightarrow> sink" where
  "error_sink dir rot ret cmpr =
     \<lparr>sink_target = File (Div dir ''error_{time:YYYY-MM-DD}.log''),
      sink_format = error_format, sink_level = ''ERROR'',
      sink_colorize = None, sink_rotation = Some rot, sink_retention = Some ret,
      sink_compression = Some cmpr, sink_encoding = Some ''utf-8'', sink_enqueue = Some True,
      sink_backtrace = Some True, sink_diagnose = Some True\<rparr>"

text \<open>
  The directory the file sinks write to: the \<open>log_dir\<close> argument when it is not \<open>None\<close>,
  otherwise \<open>get_log_dir()\<close>.
\<close>

definition resolved_log_dir :: "args \<Rightarrow> environ \<Rightarrow> path \<Rightarrow> path" where
  "resolved_log_dir a env system_env_dir =
     (case log_dir a of None \<Rightarrow> get_log_dir env system_env_dir | Some p \<Rightarrow> p)"

text \<open>
  The three values read at the top of \<open>setup_logger\<close>: a variable that is present wins
  over the parameter, and the level is upper-cased.
\<close>

definition effective_level :: "(string \<Rightarrow> string) \<Rightarrow> args \<Rightarrow> environ \<Rightarrow> string" where
  "effective_level unicode_upper a env =
     upper unicode_upper (getenv_default env ''LOG_LEVEL'' (log_level a))"

definition effective_rotation :: "args \<Rightarrow> environ \<Rightarrow> string" where
  "effective_rotation a env = getenv_default env ''LOG_ROTATION'' (rotation a)"

definition effective_retention :: "args \<Rightarrow> environ \<Rightarrow> string" where
  "effective_retention a env = getenv_default env ''LOG_RETENTION'' (retention a)"

text \<open>The calls \<open>setup_logger\<close> makes, in the order of the source.\<close>

definition setup_logger_calls ::
  "(string \<Rightarrow> string) \<Rightarrow> args \<Rightarrow> environ \<Rightarrow> path \<Rightarrow> call list" where
  "setup_logger_calls unicode_upper a env system_env_dir =
     (let lvl = effective_level unicode_upper a env;
          rot = effective_rotation a env;
          ret = effective_retention a env
      in [Logger_remove]
         @ (if enable_console a then [Logger_add (console_sink lvl)] else [])
         @ (if enable_file a then
              (let dir = resolved_log_dir a env system_env_dir
               in [Path_mkdir dir True True,
                   Logger_add (combined_sink dir rot ret (compression a)),
                   Logger_add (error_sink dir rot ret (compression a)),
                   Logger_info (Msg_log_dir dir)])
            else [])
         @ [Logger_debug (Msg_configured lvl (enable_console a) (enable_file a))])"

subsection \<open>What the calls do\<close>

text \<open>
  The backend's standard levels and their severities. \<open>logger.add\<close> raises
  \<open>ValueError\<close> for a level name that is not in the table. The module defines no level
  of its own, so the table is the one the backend starts with.
\<close>

definition level_no :: "string \<Rightarrow> nat option" where
  "level_no = map_of [(''TRACE'', 5), (''DEBUG'', 10), (''INFO'', 20), (''SUCCESS'', 25),
                      (''WARNING'', 30), (''ERROR'', 40), (''CRITICAL'', 50)]"

datatype error = ValueError | OSError | FileExistsError

text \<open>
  The state the calls act on: the registered handlers in registration order, the
  directories that exist, and the records passed to \<open>logger.info\<close> and \<open>logger.debug\<close>
  with their level.
\<close>

record world =
  handlers :: "sink list"
  dirs :: "path set"
  emitted :: "(string \<times> message) list"

text \<open>
  \<open>mkdir(parents=True, exist_ok=True)\<close> also creates missing ancestors; the state records
  the directory itself. What the platform refuses: directories that cannot be created (permissions, a file in
  the way) and sinks the backend cannot open (an unparsable rotation or retention, a file
  that cannot be written).
\<close>

record platform =
  mkdir_denied :: "path \<Rightarrow> bool"
  add_refused :: "sink \<Rightarrow> bool"

definition accepted :: "platform \<Rightarrow> sink \<Rightarrow> bool" where
  "accepted os s \<longleftrightarrow> level_no (sink_level s) \<noteq> None \<and> \<not> add_refused os s"

fun exec :: "platform \<Rightarrow> call \<Rightarrow> world \<Rightarrow> error + world" where
  "exec os Logger_remove w = Inr (w\<lparr>handlers := []\<rparr>)"
| "exec os (Logger_add s) w =
     (case level_no (sink_level s) of
        None \<Rightarrow> Inl ValueError
      | Some n \<Rightarrow> if add_refused os s then Inl OSError
                  else Inr (w\<lparr>handlers := handlers w @ [s]\<rparr>))"
| "exec os (Path_mkdir p parents exist_ok) w =
     (if p \<in> dirs w then (if exist_ok then Inr w else Inl FileExistsError)
      else if mkdir_denied os p then Inl OSError
      else Inr (w\<lparr>dirs := insert p (dirs w)\<rparr>))"
| "exec os (Logger_info m) w = Inr (w\<lparr>emitted := emitted w @ [(''INFO'', m)]\<rparr>)"
| "exec os (Logger_debug m) w = Inr (w\<lparr>emitted := emitted w @ [(''DEBUG'', m)]\<rparr>)"

text \<open>
  Running a sequence of calls: the first exception ends the run, with the state as the
  calls before it left it.
\<close>

fun run :: "platform \<Rightarrow> call list \<Rightarrow> world \<Rightarrow> error option \<times> world" where
  "run os [] w = (None, w)"
| "run os (c # cs) w =
     (case exec os c w of Inl e \<Rightarrow> (Some e, w) | Inr w' \<Rightarrow> run os cs w')"

definition setup_logger ::
  "(string \<Rightarrow> string) \<Rightarrow> args \<Rightarrow> environ \<Rightarrow> path \<Rightarrow> platform \<Rightarrow> world \<Rightarrow>
     error option \<times> world" where
  "setup_logger unicode_upper a env system_env_dir os w =
     run os (setup_logger_calls unicode_upper a env system_env_dir) w"

text \<open>A handler receives a record when the record's severity reaches the handler's level.\<close>

definition receives :: "sink \<Rightarrow> string \<Rightarrow> bool" where
  "receives s lvl =
     (case (level_no (sink_level s), level_no lvl) of
        (Some m, Some n) \<Rightarrow> m \<le> n
      | _ \<Rightarrow> False)"

definition is_file_sink :: "sink \<Rightarrow> bool" where
  "is_file_sink s = (case sink_target s of File p \<Rightarrow> True | Stderr \<Rightarrow> False)"

definition is_console_sink :: "sink \<Rightarrow> bool" where
  "is_console_sink s = (sink_target s = Stderr)"

definition is_file_add :: "call \<Rightarrow> bool" where
  "is_file_add c = (case c of Logger_add s \<Rightarrow> is_file_sink s | _ \<Rightarrow> False)"

definition is_console_add :: "call \<Rightarrow> bool" where
  "is_console_add c = (case c of Logger_add s \<Rightarrow> is_console_sink s | _ \<Rightarrow> False)"

text \<open>
  The sinks a call asks for: the arguments of its \<open>logger.add\<close> calls, in order.
\<close>

definition requested_sinks ::
  "(string \<Rightarrow> string) \<Rightarrow> args \<Rightarrow> environ \<Rightarrow> path \<Rightarrow> sink list" where
  "requested_sinks unicode_upper a env system_env_dir =
     List.map_filter (\<lambda>c. case c of Logger_add s \<Rightarrow> Some s | _ \<Rightarrow> None)
       (setup_logger_calls unicode_upper a env system_env_dir)"

section \<open>Auxiliary facts\<close>

lemma is_sink_simps [simp]:
  "is_console_sink (console_sink l)" "\<not> is_file_sink (console_sink l)"
  "is_file_sink (combined_sink p r t c)" "\<not> is_console_sink (combined_sink p r t c)"
  "is_file_sink (error_sink p r t c)" "\<not> is_console_sink (error_sink p r t c)"
  by (simp_all add: is_console_sink_def is_file_sink_def console_sink_def combined_sink_def error_sink_def)

lemma sink_level_simps [simp]:
  "sink_level (console_sink l) = l"
  "sink_level (combined_sink p r t c) = ''DEBUG''"
  "sink_level (error_sink p r t c) = ''ERROR''"
  by (simp_all add: console_sink_def combined_sink_def error_sink_def)

lemma level_no_simps [simp]:
  "level_no ''DEBUG'' = Some 10" "level_no ''ERROR'' = Some 40" "level_no ''INFO'' = Some 20"
  by (simp_all add: level_no_def)

text \<open>The outcome of \<open>setup_logger\<close> in closed form: one line per place where the run can stop.\<close>

lemma setup_logger_eq:
  "setup_logger u a env d os w =
     (let lvl = effective_level u a env;
          dir = resolved_log_dir a env d;
          cs = console_sink lvl;
          fs1 = combined_sink dir (effective_rotation a env) (effective_retention a env) (compression a);
          fs2 = error_sink dir (effective_rotation a env) (effective_retention a env) (compression a);
          hs = (if enable_console a then [cs] else []);
          dbg = (''DEBUG'', Msg_configured lvl (enable_console a) (enable_file a))
      in if enable_console a \<and> level_no lvl = None then (Some ValueError, w\<lparr>handlers := []\<rparr>)
         else if enable_console a \<and> add_refused os cs then (Some OSError, w\<lparr>handlers := []\<rparr>)
         else if \<not> enable_file a then (None, w\<lparr>handlers := hs, emitted := emitted w @ [dbg]\<rparr>)
         else if dir \<notin> dirs w \<and> mkdir_denied os dir then (Some OSError, w\<lparr>handlers := hs\<rparr>)
         else if add_refused os fs1 then
           (Some OSError, w\<lparr>handlers := hs, dirs := insert dir (dirs w)\<rparr>)
         else if add_refused os fs2 then
           (Some OSError, w\<lparr>handlers := hs @ [fs1], dirs := insert dir (dirs w)\<rparr>)
         else (None, w\<lparr>handlers := hs @ [fs1, fs2], dirs := insert dir (dirs w),
                        emitted := emitted w @ [(''INFO'', Msg_log_dir dir), dbg]\<rparr>))"
  by (auto simp: setup_logger_def setup_logger_calls_def Let_def insert_absorb
      split: option.splits)

lemma get_log_dir_upd:
  "k \<noteq> ''LOG_DIR'' \<Longrightarrow> get_log_dir (env(k := v)) d = get_log_dir env d"
  by (simp add: get_log_dir_def getenv_def)

lemma upper_ascii: "isascii s \<Longrightarrow> upper u s = map upper_char s"
  by (simp add: upper_def)

lemma isascii_samples: "isascii ''INFO''" "isascii ''debug''" "isascii ''verbose''"
  by code_simp+

lemma upper_char_samples:
  "map upper_char ''INFO'' = ''INFO''" "map upper_char ''debug'' = ''DEBUG''"
  "map upper_char ''verbose'' = ''VERBOSE''"
  by code_simp+

lemma upper_samples:
  "upper u ''INFO'' = ''INFO''" "upper u ''debug'' = ''DEBUG''" "upper u ''verbose'' = ''VERBOSE''"
  by (simp_all only: upper_ascii isascii_samples upper_char_samples)

lemma console_format_fields:
  "sublist ''{time'' console_format" "sublist ''{level'' console_format"
  "sublist ''{name}'' console_format" "sublist ''{function}'' console_format"
  "sublist ''{line}'' console_format" "sublist ''{message}'' console_format"
  by code_simp+

lemma sample_run:
  "setup_logger id default_args Map.empty (Path ''/home/u/.valuecell'')
     \<lparr>mkdir_denied = (\<lambda>p. False), add_refused = (\<lambda>s. False)\<rparr>
     \<lparr>handlers = [], dirs = {}, emitted = []\<rparr> =
   (None,
    \<lparr>handlers = [console_sink ''INFO'',
        combined_sink (Div (Path ''/home/u/.valuecell'') ''logs'') ''10 MB'' ''30 days'' ''zip'',
        error_sink (Div (Path ''/home/u/.valuecell'') ''logs'') ''10 MB'' ''30 days'' ''zip''],
     dirs = {Div (Path ''/home/u/.valuecell'') ''logs''},
     emitted = [(''INFO'', Msg_log_dir (Div (Path ''/home/u/.valuecell'') ''logs'')),
                (''DEBUG'', Msg_configured ''INFO'' True True)]\<rparr>)"
  by (simp add: setup_logger_eq Let_def default_args_def effective_level_def
      effective_rotation_def effective_retention_def getenv_default_def resolved_log_dir_def
      get_log_dir_def getenv_def upper_samples)

lemma file_sink_fields:
  "sink_target (combined_sink p r t c) = File (Div p ''valuecell_{time:YYYY-MM-DD}.log'')"
  "sink_rotation (combined_sink p r t c) = Some r"
  "sink_retention (combined_sink p r t c) = Some t"
  "sink_compression (combined_sink p r t c) = Some c"
  "sink_enqueue (combined_sink p r t c) = Some True"
  "sink_target (error_sink p r t c) = File (Div p ''error_{time:YYYY-MM-DD}.log'')"
  "sink_rotation (error_sink p r t c) = Some r"
  "sink_retention (error_sink p r t c) = Some t"
  "sink_compression (error_sink p r t c) = Some c"
  "sink_enqueue (error_sink p r t c) = Some True"
  by (simp_all add: combined_sink_def error_sink_def)

section \<open>Properties\<close>

text \<open>
  C1. \<open>get_log_dir\<close> returns \<open>Path s\<close> when \<open>LOG_DIR\<close> is bound to a non-empty string
  \<open>s\<close>, and \<open>system_env_dir / "logs"\<close> when \<open>LOG_DIR\<close> is absent or empty. The function
  is total: in every environment one of the two paths is its value.
\<close>

theorem get_log_dir_resolution:
  "(\<forall>s. env ''LOG_DIR'' = Some s \<and> s \<noteq> [] \<longrightarrow> get_log_dir env d = Path s) \<and>
   (env ''LOG_DIR'' = None \<or> env ''LOG_DIR'' = Some [] \<longrightarrow> get_log_dir env d = Div d ''logs'') \<and>
   (\<exists>p. get_log_dir env d = p \<and> (p = Div d ''logs'' \<or> (\<exists>s. s \<noteq> [] \<and> p = Path s)))"
  by (auto simp: get_log_dir_def getenv_def split: option.splits)

theorem get_log_dir_resolution_witness:
  "get_log_dir [''LOG_DIR'' \<mapsto> ''/tmp/x''] (Path ''/home/u/.valuecell'') = Path ''/tmp/x'' \<and>
   get_log_dir Map.empty (Path ''/home/u/.valuecell'') = Div (Path ''/home/u/.valuecell'') ''logs'' \<and>
   get_log_dir [''LOG_DIR'' \<mapsto> ''''] (Path ''/home/u/.valuecell'') = Div (Path ''/home/u/.valuecell'') ''logs''"
  using get_log_dir_resolution [of "[''LOG_DIR'' \<mapsto> ''/tmp/x'']" "Path ''/home/u/.valuecell''"]
        get_log_dir_resolution [of "Map.empty" "Path ''/home/u/.valuecell''"]
        get_log_dir_resolution [of "[''LOG_DIR'' \<mapsto> '''']" "Path ''/home/u/.valuecell''"]
  by simp

text \<open>
  C2. A variable \<open>LOG_LEVEL\<close>, \<open>LOG_ROTATION\<close> or \<open>LOG_RETENTION\<close> that is set wins
  over the corresponding parameter, and the parameter is used when the variable is unset:
  the calls are those of a caller who had passed the variable's value with the variable
  unset. The effective level is the upper-cased chosen value: on ASCII text every letter
  \<open>a\<close> to \<open>z\<close> is replaced by its capital and nothing else changes, so \<open>LOG_LEVEL=debug\<close>
  gives \<open>DEBUG\<close>; on other text it is what Unicode's case mapping gives. The effective values
  are the ones the sinks are asked with: the level is the level of the console sink and of
  the closing debug line, the rotation and the retention are those of both file sinks, and
  after a call that returns normally these are the sinks in the registry.
\<close>

theorem setup_logger_env_precedence:
  "(\<forall>l. env ''LOG_LEVEL'' = Some l \<longrightarrow>
      effective_level u a env = upper u l \<and>
      setup_logger_calls u a env d =
        setup_logger_calls u (a\<lparr>log_level := l\<rparr>) (env(''LOG_LEVEL'' := None)) d) \<and>
   (env ''LOG_LEVEL'' = None \<longrightarrow> effective_level u a env = upper u (log_level a)) \<and>
   (\<forall>r. env ''LOG_ROTATION'' = Some r \<longrightarrow>
      effective_rotation a env = r \<and>
      setup_logger_calls u a env d =
        setup_logger_calls u (a\<lparr>rotation := r\<rparr>) (env(''LOG_ROTATION'' := None)) d) \<and>
   (env ''LOG_ROTATION'' = None \<longrightarrow> effective_rotation a env = rotation a) \<and>
   (\<forall>t. env ''LOG_RETENTION'' = Some t \<longrightarrow>
      effective_retention a env = t \<and>
      setup_logger_calls u a env d =
        setup_logger_calls u (a\<lparr>retention := t\<rparr>) (env(''LOG_RETENTION'' := None)) d) \<and>
   (env ''LOG_RETENTION'' = None \<longrightarrow> effective_retention a env = retention a) \<and>
   (\<forall>s. (\<forall>c \<in> set s. (of_char c :: nat) < 128) \<longrightarrow>
      upper u s =
        map (\<lambda>c. if 97 \<le> (of_char c :: nat) \<and> (of_char c :: nat) \<le> 122
                 then char_of ((of_char c :: nat) - 32) else c) s) \<and>
   (\<forall>s. \<not> (\<forall>c \<in> set s. (of_char c :: nat) < 128) \<longrightarrow> upper u s = u s) \<and>
   (env ''LOG_LEVEL'' = Some ''debug'' \<longrightarrow> effective_level u a env = ''DEBUG'') \<and>
   map sink_level (filter is_console_sink (requested_sinks u a env d)) =
     (if enable_console a then [effective_level u a env] else []) \<and>
   map sink_rotation (filter is_file_sink (requested_sinks u a env d)) =
     (if enable_file a then [Some (effective_rotation a env), Some (effective_rotation a env)]
      else []) \<and>
   map sink_retention (filter is_file_sink (requested_sinks u a env d)) =
     (if enable_file a then [Some (effective_retention a env), Some (effective_retention a env)]
      else []) \<and>
   last (setup_logger_calls u a env d) =
     Logger_debug (Msg_configured (effective_level u a env) (enable_console a) (enable_file a)) \<and>
   (fst (setup_logger u a env d os w) = None \<longrightarrow>
      handlers (snd (setup_logger u a env d os w)) = requested_sinks u a env d)"
proof -
  have set_level: "\<forall>l. env ''LOG_LEVEL'' = Some l \<longrightarrow>
      effective_level u a env = upper u l \<and>
      setup_logger_calls u a env d =
        setup_logger_calls u (a\<lparr>log_level := l\<rparr>) (env(''LOG_LEVEL'' := None)) d"
    by (simp add: setup_logger_calls_def Let_def effective_level_def effective_rotation_def
        effective_retention_def getenv_default_def resolved_log_dir_def get_log_dir_upd
        cong: option.case_cong)
  have set_rotation: "\<forall>r. env ''LOG_ROTATION'' = Some r \<longrightarrow>
      effective_rotation a env = r \<and>
      setup_logger_calls u a env d =
        setup_logger_calls u (a\<lparr>rotation := r\<rparr>) (env(''LOG_ROTATION'' := None)) d"
    by (simp add: setup_logger_calls_def Let_def effective_level_def effective_rotation_def
        effective_retention_def getenv_default_def resolved_log_dir_def get_log_dir_upd
        cong: option.case_cong)
  have set_retention: "\<forall>t. env ''LOG_RETENTION'' = Some t \<longrightarrow>
      effective_retention a env = t \<and>
      setup_logger_calls u a env d =
        setup_logger_calls u (a\<lparr>retention := t\<rparr>) (env(''LOG_RETENTION'' := None)) d"
    by (simp add: setup_logger_calls_def Let_def effective_level_def effective_rotation_def
        effective_retention_def getenv_default_def resolved_log_dir_def get_log_dir_upd
        cong: option.case_cong)
  have unset: "env ''LOG_LEVEL'' = None \<longrightarrow> effective_level u a env = upper u (log_level a)"
    "env ''LOG_ROTATION'' = None \<longrightarrow> effective_rotation a env = rotation a"
    "env ''LOG_RETENTION'' = None \<longrightarrow> effective_retention a env = retention a"
    by (simp_all add: effective_level_def effective_rotation_def effective_retention_def
        getenv_default_def)
  have ascii: "\<forall>s. (\<forall>c \<in> set s. (of_char c :: nat) < 128) \<longrightarrow>
      upper u s =
        map (\<lambda>c. if 97 \<le> (of_char c :: nat) \<and> (of_char c :: nat) \<le> 122
                 then char_of ((of_char c :: nat) - 32) else c) s"
    by (simp add: upper_def isascii_def list_all_iff upper_char_def Let_def)
  have other: "\<forall>s. \<not> (\<forall>c \<in> set s. (of_char c :: nat) < 128) \<longrightarrow> upper u s = u s"
    by (simp add: upper_def isascii_def list_all_iff)
  have debug: "env ''LOG_LEVEL'' = Some ''debug'' \<longrightarrow> effective_level u a env = ''DEBUG''"
    by (simp add: effective_level_def getenv_default_def upper_samples)
  have req: "requested_sinks u a env d =
      (if enable_console a then [console_sink (effective_level u a env)] else []) @
      (if enable_file a then
         [combined_sink (resolved_log_dir a env d) (effective_rotation a env)
            (effective_retention a env) (compression a),
          error_sink (resolved_log_dir a env d) (effective_rotation a env)
            (effective_retention a env) (compression a)]
       else [])"
    by (simp add: requested_sinks_def setup_logger_calls_def Let_def List.map_filter_simps)
  have console: "map sink_level (filter is_console_sink (requested_sinks u a env d)) =
     (if enable_console a then [effective_level u a env] else [])"
    by (simp add: req)
  have rot: "map sink_rotation (filter is_file_sink (requested_sinks u a env d)) =
     (if enable_file a then [Some (effective_rotation a env), Some (effective_rotation a env)]
      else [])"
    by (simp add: req file_sink_fields)
  have ret: "map sink_retention (filter is_file_sink (requested_sinks u a env d)) =
     (if enable_file a then [Some (effective_retention a env), Some (effective_retention a env)]
      else [])"
    by (simp add: req file_sink_fields)
  have dbg: "last (setup_logger_calls u a env d) =
     Logger_debug (Msg_configured (effective_level u a env) (enable_console a) (enable_file a))"
    by (simp add: setup_logger_calls_def Let_def)
  have reg: "fst (setup_logger u a env d os w) = None \<longrightarrow>
      handlers (snd (setup_logger u a env d os w)) = requested_sinks u a env d"
    by (auto simp: req setup_logger_eq Let_def split: if_splits)
  from set_level unset(1) set_rotation unset(2) set_retention unset(3) ascii other debug
    console rot ret dbg reg
  show ?thesis by blast
qed

theorem setup_logger_env_precedence_witness:
  "effective_level id default_args
     [''LOG_LEVEL'' \<mapsto> ''debug'', ''LOG_ROTATION'' \<mapsto> ''1 week'', ''LOG_RETENTION'' \<mapsto> ''7 days'']
     = ''DEBUG'' \<and>
   effective_rotation default_args
     [''LOG_LEVEL'' \<mapsto> ''debug'', ''LOG_ROTATION'' \<mapsto> ''1 week'', ''LOG_RETENTION'' \<mapsto> ''7 days'']
     = ''1 week'' \<and>
   effective_retention default_args
     [''LOG_LEVEL'' \<mapsto> ''debug'', ''LOG_ROTATION'' \<mapsto> ''1 week'', ''LOG_RETENTION'' \<mapsto> ''7 days'']
     = ''7 days'' \<and>
   map sink_level (filter is_console_sink (requested_sinks id default_args
     [''LOG_LEVEL'' \<mapsto> ''debug'', ''LOG_ROTATION'' \<mapsto> ''1 week'', ''LOG_RETENTION'' \<mapsto> ''7 days'']
     (Path ''/home/u/.valuecell''))) = [''DEBUG''] \<and>
   map sink_rotation (filter is_file_sink (requested_sinks id default_args
     [''LOG_LEVEL'' \<mapsto> ''debug'', ''LOG_ROTATION'' \<mapsto> ''1 week'', ''LOG_RETENTION'' \<mapsto> ''7 days'']
     (Path ''/home/u/.valuecell''))) = [Some ''1 week'', Some ''1 week''] \<and>
   map sink_retention (filter is_file_sink (requested_sinks id default_args
     [''LOG_LEVEL'' \<mapsto> ''debug'', ''LOG_ROTATION'' \<mapsto> ''1 week'', ''LOG_RETENTION'' \<mapsto> ''7 days'']
     (Path ''/home/u/.valuecell''))) = [Some ''7 days'', Some ''7 days''] \<and>
   effective_level id (default_args\<lparr>log_level := ''warning''\<rparr>) Map.empty = ''WARNING'' \<and>
   effective_rotation default_args Map.empty = ''10 MB'' \<and>
   effective_retention default_args Map.empty = ''30 days'' \<and>
   upper (\<lambda>s. if s = [CHR 0x64, CHR 0xC3, CHR 0xA9] then [CHR 0x44, CHR 0xC3, CHR 0x89] else s)
     [CHR 0x64, CHR 0xC3, CHR 0xA9] = [CHR 0x44, CHR 0xC3, CHR 0x89]"
proof -
  let ?env = "[''LOG_LEVEL'' \<mapsto> ''debug'', ''LOG_ROTATION'' \<mapsto> ''1 week'',
               ''LOG_RETENTION'' \<mapsto> ''7 days'']"
  let ?d = "Path ''/home/u/.valuecell''"
  let ?a = "default_args\<lparr>log_level := ''warning''\<rparr>"
  let ?s = "[CHR 0x64, CHR 0xC3, CHR 0xA9]"
  let ?u = "\<lambda>s. if s = ?s then [CHR 0x44, CHR 0xC3, CHR 0x89] else s"
  let ?up = "\<lambda>c. if 97 \<le> (of_char c :: nat) \<and> (of_char c :: nat) \<le> 122
                  then char_of ((of_char c :: nat) - 32) else c"
  note set_case = setup_logger_env_precedence [where u = id and a = default_args
      and env = ?env and d = ?d]
  note param_case = setup_logger_env_precedence [where u = id and a = ?a and env = Map.empty]
  note default_case = setup_logger_env_precedence [where u = id and a = default_args
      and env = Map.empty]
  note unicode_case = setup_logger_env_precedence [where u = ?u]
  have vars: "?env ''LOG_LEVEL'' = Some ''debug''" "?env ''LOG_ROTATION'' = Some ''1 week''"
    "?env ''LOG_RETENTION'' = Some ''7 days''"
    by simp_all
  have none: "Map.empty ''LOG_LEVEL'' = None" "Map.empty ''LOG_ROTATION'' = None"
    "Map.empty ''LOG_RETENTION'' = None"
    by simp_all
  have ec: "enable_console default_args" and ef: "enable_file default_args"
    and lv: "log_level ?a = ''warning''"
    and ro: "rotation default_args = ''10 MB''" and re: "retention default_args = ''30 days''"
    by (simp_all add: default_args_def)
  have ascii: "\<forall>c \<in> set ''warning''. (of_char c :: nat) < 128"
    and capitals: "map ?up ''warning'' = ''WARNING''"
    and other: "\<not> (\<forall>c \<in> set ?s. (of_char c :: nat) < 128)"
    by code_simp+
  from set_case vars(1)
  have level: "effective_level id default_args ?env = ''DEBUG''" by blast
  from set_case vars(2)
  have rot: "effective_rotation default_args ?env = ''1 week''" by blast
  from set_case vars(3)
  have ret: "effective_retention default_args ?env = ''7 days''" by blast
  from set_case have "map sink_level (filter is_console_sink
      (requested_sinks id default_args ?env ?d)) =
      (if enable_console default_args then [effective_level id default_args ?env] else [])"
    by blast
  with ec level have console: "map sink_level (filter is_console_sink
      (requested_sinks id default_args ?env ?d)) = [''DEBUG'']"
    by simp
  from set_case have "map sink_rotation (filter is_file_sink
      (requested_sinks id default_args ?env ?d)) =
      (if enable_file default_args
       then [Some (effective_rotation default_args ?env),
             Some (effective_rotation default_args ?env)]
       else [])"
    by blast
  with ef rot have files_rot: "map sink_rotation (filter is_file_sink
      (requested_sinks id default_args ?env ?d)) = [Some ''1 week'', Some ''1 week'']"
    by simp
  from set_case have "map sink_retention (filter is_file_sink
      (requested_sinks id default_args ?env ?d)) =
      (if enable_file default_args
       then [Some (effective_retention default_args ?env),
             Some (effective_retention default_args ?env)]
       else [])"
    by blast
  with ef ret have files_ret: "map sink_retention (filter is_file_sink
      (requested_sinks id default_args ?env ?d)) = [Some ''7 days'', Some ''7 days'']"
    by simp
  from param_case none(1)
  have "effective_level id ?a Map.empty = upper id (log_level ?a)" by blast
  moreover from param_case
  have "\<forall>s. (\<forall>c \<in> set s. (of_char c :: nat) < 128) \<longrightarrow> upper id s = map ?up s"
    by blast
  with ascii have "upper id ''warning'' = map ?up ''warning''" by blast
  ultimately have warning: "effective_level id ?a Map.empty = ''WARNING''"
    by (simp only: lv capitals)
  from default_case none(2) ro
  have rot0: "effective_rotation default_args Map.empty = ''10 MB''" by simp
  from default_case none(3) re
  have ret0: "effective_retention default_args Map.empty = ''30 days''" by simp
  from unicode_case have "\<forall>s. \<not> (\<forall>c \<in> set s. (of_char c :: nat) < 128) \<longrightarrow> upper ?u s = ?u s"
    by blast
  with other have "upper ?u ?s = ?u ?s" by blast
  then have unicode: "upper ?u ?s = [CHR 0x44, CHR 0xC3, CHR 0x89]" by simp
  from level rot ret console files_rot files_ret warning rot0 ret0 unicode
  show ?thesis by blast
qed

text \<open>
  C3. \<open>setup_logger\<close> removes every handler first: \<open>logger.remove()\<close> is its first call
  and is not repeated, so the outcome does not depend on the handlers registered before.
  After two calls in a row, when the second returns normally, the registry holds exactly the
  sinks the second call asked for.
\<close>

theorem setup_logger_twice:
  "setup_logger u a2 env2 d2 os2 (w\<lparr>handlers := hs\<rparr>) = setup_logger u a2 env2 d2 os2 w \<and>
   hd (setup_logger_calls u a2 env2 d2) = Logger_remove \<and>
   Logger_remove \<notin> set (tl (setup_logger_calls u a2 env2 d2)) \<and>
   (fst (setup_logger u a2 env2 d2 os2 (snd (setup_logger u a1 env1 d1 os1 w))) = None \<longrightarrow>
      handlers (snd (setup_logger u a2 env2 d2 os2 (snd (setup_logger u a1 env1 d1 os1 w)))) =
        requested_sinks u a2 env2 d2)"
proof -
  have reset: "setup_logger u a2 env2 d2 os2 (w\<lparr>handlers := hs\<rparr>) = setup_logger u a2 env2 d2 os2 w"
    by (simp add: setup_logger_def setup_logger_calls_def Let_def)
  have first: "hd (setup_logger_calls u a2 env2 d2) = Logger_remove"
    and once: "Logger_remove \<notin> set (tl (setup_logger_calls u a2 env2 d2))"
    by (simp_all add: setup_logger_calls_def Let_def)
  have req: "requested_sinks u a2 env2 d2 =
      (if enable_console a2 then [console_sink (effective_level u a2 env2)] else []) @
      (if enable_file a2 then
         [combined_sink (resolved_log_dir a2 env2 d2) (effective_rotation a2 env2)
            (effective_retention a2 env2) (compression a2),
          error_sink (resolved_log_dir a2 env2 d2) (effective_rotation a2 env2)
            (effective_retention a2 env2) (compression a2)]
       else [])"
    by (simp add: requested_sinks_def setup_logger_calls_def Let_def List.map_filter_simps)
  have ok: "fst (setup_logger u a2 env2 d2 os2 v) = None \<Longrightarrow>
      handlers (snd (setup_logger u a2 env2 d2 os2 v)) = requested_sinks u a2 env2 d2" for v
    by (auto simp: req setup_logger_eq Let_def split: if_splits)
  from reset first once ok show ?thesis by blast
qed

theorem setup_logger_twice_witness:
  "fst (setup_logger id (default_args\<lparr>enable_file := False\<rparr>) Map.empty (Path ''/home/u/.valuecell'')
          \<lparr>mkdir_denied = (\<lambda>p. False), add_refused = (\<lambda>s. False)\<rparr>
          (snd (setup_logger id default_args Map.empty (Path ''/home/u/.valuecell'')
                  \<lparr>mkdir_denied = (\<lambda>p. False), add_refused = (\<lambda>s. False)\<rparr>
                  \<lparr>handlers = [], dirs = {}, emitted = []\<rparr>))) = None \<and>
   handlers (snd (setup_logger id (default_args\<lparr>enable_file := False\<rparr>) Map.empty
          (Path ''/home/u/.valuecell'')
          \<lparr>mkdir_denied = (\<lambda>p. False), add_refused = (\<lambda>s. False)\<rparr>
          (snd (setup_logger id default_args Map.empty (Path ''/home/u/.valuecell'')
                  \<lparr>mkdir_denied = (\<lambda>p. False), add_refused = (\<lambda>s. False)\<rparr>
                  \<lparr>handlers = [], dirs = {}, emitted = []\<rparr>)))) = [console_sink ''INFO'']"
proof -
  have ok: "fst (setup_logger id (default_args\<lparr>enable_file := False\<rparr>) Map.empty
          (Path ''/home/u/.valuecell'')
          \<lparr>mkdir_denied = (\<lambda>p. False), add_refused = (\<lambda>s. False)\<rparr>
          (snd (setup_logger id default_args Map.empty (Path ''/home/u/.valuecell'')
                  \<lparr>mkdir_denied = (\<lambda>p. False), add_refused = (\<lambda>s. False)\<rparr>
                  \<lparr>handlers = [], dirs = {}, emitted = []\<rparr>))) = None"
    by (simp add: setup_logger_eq Let_def default_args_def effective_level_def
        getenv_default_def upper_samples)
  have req: "requested_sinks id (default_args\<lparr>enable_file := False\<rparr>) Map.empty
      (Path ''/home/u/.valuecell'') = [console_sink ''INFO'']"
    by (simp add: requested_sinks_def setup_logger_calls_def Let_def List.map_filter_simps
        default_args_def effective_level_def getenv_default_def upper_samples)
  from ok req setup_logger_twice [where u = id and ?a2.0 = "default_args\<lparr>enable_file := False\<rparr>"
      and ?env2.0 = Map.empty and ?d2.0 = "Path ''/home/u/.valuecell''"
      and ?os2.0 = "\<lparr>mkdir_denied = (\<lambda>p. False), add_refused = (\<lambda>s. False)\<rparr>"
      and w = "\<lparr>handlers = [], dirs = {}, emitted = []\<rparr>" and hs = "[]"
      and ?a1.0 = default_args and ?env1.0 = Map.empty and ?d1.0 = "Path ''/home/u/.valuecell''"
      and ?os1.0 = "\<lparr>mkdir_denied = (\<lambda>p. False), add_refused = (\<lambda>s. False)\<rparr>"]
  show ?thesis by simp
qed

text \<open>
  C8. With console and file output both disabled, \<open>setup_logger\<close> returns normally
  whatever the platform refuses, asks for no sink and leaves the registry empty.
\<close>

theorem setup_logger_disabled:
  "\<not> enable_console a \<Longrightarrow> \<not> enable_file a \<Longrightarrow>
     fst (setup_logger u a env d os w) = None \<and>
     handlers (snd (setup_logger u a env d os w)) = [] \<and>
     requested_sinks u a env d = []"
  by (simp add: setup_logger_eq Let_def requested_sinks_def setup_logger_calls_def
      List.map_filter_simps)

theorem setup_logger_disabled_witness:
  "\<not> enable_console (default_args\<lparr>enable_console := False, enable_file := False\<rparr>) \<and>
   \<not> enable_file (default_args\<lparr>enable_console := False, enable_file := False\<rparr>) \<and>
   setup_logger id (default_args\<lparr>enable_console := False, enable_file := False\<rparr>) Map.empty
     (Path ''/home/u/.valuecell'')
     \<lparr>mkdir_denied = (\<lambda>p. True), add_refused = (\<lambda>s. True)\<rparr>
     \<lparr>handlers = [console_sink ''WARNING''], dirs = {}, emitted = []\<rparr> =
   (None, \<lparr>handlers = [], dirs = {},
           emitted = [(''DEBUG'', Msg_configured ''INFO'' False False)]\<rparr>)"
proof -
  have h1: "\<not> enable_console (default_args\<lparr>enable_console := False, enable_file := False\<rparr>)"
    and h2: "\<not> enable_file (default_args\<lparr>enable_console := False, enable_file := False\<rparr>)"
    by (simp_all add: default_args_def)
  have run: "setup_logger id (default_args\<lparr>enable_console := False, enable_file := False\<rparr>)
      Map.empty (Path ''/home/u/.valuecell'')
      \<lparr>mkdir_denied = (\<lambda>p. True), add_refused = (\<lambda>s. True)\<rparr>
      \<lparr>handlers = [console_sink ''WARNING''], dirs = {}, emitted = []\<rparr> =
    (None, \<lparr>handlers = [], dirs = {},
           emitted = [(''DEBUG'', Msg_configured ''INFO'' False False)]\<rparr>)"
    by (simp add: setup_logger_eq Let_def default_args_def effective_level_def
        getenv_default_def upper_samples)
  from setup_logger_disabled [OF h1 h2, where u = id and env = Map.empty
      and d = "Path ''/home/u/.valuecell''"
      and os = "\<lparr>mkdir_denied = (\<lambda>p. True), add_refused = (\<lambda>s. True)\<rparr>"
      and w = "\<lparr>handlers = [console_sink ''WARNING''], dirs = {}, emitted = []\<rparr>"] h1 h2 run
  show ?thesis by simp
qed

text \<open>
  C9. A call that returns normally emits, after what was emitted before, one INFO line
  with the resolved log directory exactly when file output is enabled, and then one DEBUG
  line with the effective level and the two flags.
\<close>

theorem setup_logger_emitted:
  "fst (setup_logger u a env d os w) = None \<Longrightarrow>
     emitted (snd (setup_logger u a env d os w)) =
       emitted w
       @ (if enable_file a then [(''INFO'', Msg_log_dir (resolved_log_dir a env d))] else [])
       @ [(''DEBUG'', Msg_configured (effective_level u a env) (enable_console a) (enable_file a))]"
  by (auto simp: setup_logger_eq Let_def split: if_splits)

theorem setup_logger_emitted_witness:
  "fst (setup_logger id default_args Map.empty (Path ''/home/u/.valuecell'')
     \<lparr>mkdir_denied = (\<lambda>p. False), add_refused = (\<lambda>s. False)\<rparr>
     \<lparr>handlers = [], dirs = {}, emitted = []\<rparr>) = None \<and>
   emitted (snd (setup_logger id default_args Map.empty (Path ''/home/u/.valuecell'')
     \<lparr>mkdir_denied = (\<lambda>p. False), add_refused = (\<lambda>s. False)\<rparr>
     \<lparr>handlers = [], dirs = {}, emitted = []\<rparr>)) =
     [(''INFO'', Msg_log_dir (Div (Path ''/home/u/.valuecell'') ''logs'')),
      (''DEBUG'', Msg_configured ''INFO'' True True)]"
proof -
  have ok: "fst (setup_logger id default_args Map.empty (Path ''/home/u/.valuecell'')
     \<lparr>mkdir_denied = (\<lambda>p. False), add_refused = (\<lambda>s. False)\<rparr>
     \<lparr>handlers = [], dirs = {}, emitted = []\<rparr>) = None"
    by (simp add: sample_run)
  from setup_logger_emitted [OF ok] ok show ?thesis
    by (simp add: default_args_def resolved_log_dir_def get_log_dir_def getenv_def
        effective_level_def getenv_default_def upper_samples)
qed

text \<open>
  C10. A \<open>log_dir\<close> argument that is not \<open>None\<close> is the directory used, as given: it is
  the one directory \<open>mkdir\<close> is called on, both file sinks write to files directly under it,
  the INFO line announces it, and after a call that returns normally it exists and the file
  sinks in the registry are the two under it. Neither \<open>LOG_DIR\<close> nor the system directory,
  which are all that \<open>get_log_dir\<close> reads, has any effect on the outcome. Only when
  \<open>log_dir\<close> is \<open>None\<close> is the directory that of \<open>get_log_dir\<close>: the value of \<open>LOG_DIR\<close>
  when that is set and not empty, \<open>logs\<close> under the system directory otherwise.
\<close>

theorem setup_logger_explicit_dir:
  "(\<forall>p. log_dir a = Some p \<longrightarrow>
      resolved_log_dir a env d = p \<and>
      setup_logger_calls u a (env(''LOG_DIR'' := v)) d' = setup_logger_calls u a env d \<and>
      setup_logger u a (env(''LOG_DIR'' := v)) d' os w = setup_logger u a env d os w \<and>
      (enable_file a \<longrightarrow>
         Path_mkdir p True True \<in> set (setup_logger_calls u a env d) \<and>
         (\<forall>q x y. Path_mkdir q x y \<in> set (setup_logger_calls u a env d) \<longrightarrow> q = p) \<and>
         Logger_info (Msg_log_dir p) \<in> set (setup_logger_calls u a env d) \<and>
         map sink_target (filter is_file_sink (requested_sinks u a env d)) =
           [File (Div p ''valuecell_{time:YYYY-MM-DD}.log''),
            File (Div p ''error_{time:YYYY-MM-DD}.log'')] \<and>
         (fst (setup_logger u a env d os w) = None \<longrightarrow>
            dirs (snd (setup_logger u a env d os w)) = insert p (dirs w) \<and>
            map sink_target
                (filter is_file_sink (handlers (snd (setup_logger u a env d os w)))) =
              [File (Div p ''valuecell_{time:YYYY-MM-DD}.log''),
               File (Div p ''error_{time:YYYY-MM-DD}.log'')]))) \<and>
   (log_dir a = None \<longrightarrow>
      resolved_log_dir a env d = get_log_dir env d \<and>
      (enable_file a \<longrightarrow>
         (\<forall>s. env ''LOG_DIR'' = Some s \<and> s \<noteq> [] \<longrightarrow>
            Path_mkdir (Path s) True True \<in> set (setup_logger_calls u a env d) \<and>
            map sink_target (filter is_file_sink (requested_sinks u a env d)) =
              [File (Div (Path s) ''valuecell_{time:YYYY-MM-DD}.log''),
               File (Div (Path s) ''error_{time:YYYY-MM-DD}.log'')]) \<and>
         (env ''LOG_DIR'' = None \<or> env ''LOG_DIR'' = Some [] \<longrightarrow>
            Path_mkdir (Div d ''logs'') True True \<in> set (setup_logger_calls u a env d) \<and>
            map sink_target (filter is_file_sink (requested_sinks u a env d)) =
              [File (Div (Div d ''logs'') ''valuecell_{time:YYYY-MM-DD}.log''),
               File (Div (Div d ''logs'') ''error_{time:YYYY-MM-DD}.log'')])))"
proof -
  have calls: "setup_logger_calls u a env d =
      [Logger_remove]
      @ (if enable_console a then [Logger_add (console_sink (effective_level u a env))] else [])
      @ (if enable_file a then
           [Path_mkdir (resolved_log_dir a env d) True True,
            Logger_add (combined_sink (resolved_log_dir a env d) (effective_rotation a env)
              (effective_retention a env) (compression a)),
            Logger_add (error_sink (resolved_log_dir a env d) (effective_rotation a env)
              (effective_retention a env) (compression a)),
            Logger_info (Msg_log_dir (resolved_log_dir a env d))]
         else [])
      @ [Logger_debug (Msg_configured (effective_level u a env) (enable_console a)
           (enable_file a))]"
    by (simp add: setup_logger_calls_def Let_def)
  have targets: "enable_file a \<Longrightarrow>
      map sink_target (filter is_file_sink (requested_sinks u a env d)) =
        [File (Div (resolved_log_dir a env d) ''valuecell_{time:YYYY-MM-DD}.log''),
         File (Div (resolved_log_dir a env d) ''error_{time:YYYY-MM-DD}.log'')]"
    by (simp add: requested_sinks_def calls List.map_filter_simps file_sink_fields)
  have mkdir: "enable_file a \<Longrightarrow>
      Path_mkdir (resolved_log_dir a env d) True True \<in> set (setup_logger_calls u a env d)"
    and only: "\<And>q x y. Path_mkdir q x y \<in> set (setup_logger_calls u a env d) \<Longrightarrow>
      q = resolved_log_dir a env d"
    and info: "enable_file a \<Longrightarrow>
      Logger_info (Msg_log_dir (resolved_log_dir a env d)) \<in> set (setup_logger_calls u a env d)"
    by (auto simp: calls split: if_splits)
  have after: "enable_file a \<Longrightarrow> fst (setup_logger u a env d os w) = None \<Longrightarrow>
      dirs (snd (setup_logger u a env d os w)) = insert (resolved_log_dir a env d) (dirs w) \<and>
      map sink_target (filter is_file_sink (handlers (snd (setup_logger u a env d os w)))) =
        [File (Div (resolved_log_dir a env d) ''valuecell_{time:YYYY-MM-DD}.log''),
         File (Div (resolved_log_dir a env d) ''error_{time:YYYY-MM-DD}.log'')]"
    by (auto simp: setup_logger_eq Let_def file_sink_fields insert_absorb split: if_splits)
  have indep: "log_dir a = Some p \<Longrightarrow>
      setup_logger_calls u a (env(''LOG_DIR'' := v)) d' = setup_logger_calls u a env d" for p
    by (simp add: setup_logger_calls_def Let_def resolved_log_dir_def effective_level_def
        effective_rotation_def effective_retention_def getenv_default_def)
  have given: "log_dir a = Some p \<Longrightarrow> resolved_log_dir a env d = p" for p
    by (simp add: resolved_log_dir_def)
  have omitted: "log_dir a = None \<Longrightarrow> resolved_log_dir a env d = get_log_dir env d"
    by (simp add: resolved_log_dir_def)
  have from_env: "env ''LOG_DIR'' = Some s \<Longrightarrow> s \<noteq> [] \<Longrightarrow> get_log_dir env d = Path s" for s
    by (simp add: get_log_dir_def getenv_def)
  have fallback: "env ''LOG_DIR'' = None \<or> env ''LOG_DIR'' = Some [] \<Longrightarrow>
      get_log_dir env d = Div d ''logs''"
    by (auto simp: get_log_dir_def getenv_def)
  have explicit: "\<forall>p. log_dir a = Some p \<longrightarrow>
      resolved_log_dir a env d = p \<and>
      setup_logger_calls u a (env(''LOG_DIR'' := v)) d' = setup_logger_calls u a env d \<and>
      setup_logger u a (env(''LOG_DIR'' := v)) d' os w = setup_logger u a env d os w \<and>
      (enable_file a \<longrightarrow>
         Path_mkdir p True True \<in> set (setup_logger_calls u a env d) \<and>
         (\<forall>q x y. Path_mkdir q x y \<in> set (setup_logger_calls u a env d) \<longrightarrow> q = p) \<and>
         Logger_info (Msg_log_dir p) \<in> set (setup_logger_calls u a env d) \<and>
         map sink_target (filter is_file_sink (requested_sinks u a env d)) =
           [File (Div p ''valuecell_{time:YYYY-MM-DD}.log''),
            File (Div p ''error_{time:YYYY-MM-DD}.log'')] \<and>
         (fst (setup_logger u a env d os w) = None \<longrightarrow>
            dirs (snd (setup_logger u a env d os w)) = insert p (dirs w) \<and>
            map sink_target
                (filter is_file_sink (handlers (snd (setup_logger u a env d os w)))) =
              [File (Div p ''valuecell_{time:YYYY-MM-DD}.log''),
               File (Div p ''error_{time:YYYY-MM-DD}.log'')]))"
  proof (intro allI impI)
    fix p assume p: "log_dir a = Some p"
    note r = given [OF p]
    from indep [OF p] have run: "setup_logger u a (env(''LOG_DIR'' := v)) d' os w =
        setup_logger u a env d os w"
      by (simp add: setup_logger_def)
    from r indep [OF p] run mkdir only info targets after
    show "resolved_log_dir a env d = p \<and>
      setup_logger_calls u a (env(''LOG_DIR'' := v)) d' = setup_logger_calls u a env d \<and>
      setup_logger u a (env(''LOG_DIR'' := v)) d' os w = setup_logger u a env d os w \<and>
      (enable_file a \<longrightarrow>
         Path_mkdir p True True \<in> set (setup_logger_calls u a env d) \<and>
         (\<forall>q x y. Path_mkdir q x y \<in> set (setup_logger_calls u a env d) \<longrightarrow> q = p) \<and>
         Logger_info (Msg_log_dir p) \<in> set (setup_logger_calls u a env d) \<and>
         map sink_target (filter is_file_sink (requested_sinks u a env d)) =
           [File (Div p ''valuecell_{time:YYYY-MM-DD}.log''),
            File (Div p ''error_{time:YYYY-MM-DD}.log'')] \<and>
         (fst (setup_logger u a env d os w) = None \<longrightarrow>
            dirs (snd (setup_logger u a env d os w)) = insert p (dirs w) \<and>
            map sink_target
                (filter is_file_sink (handlers (snd (setup_logger u a env d os w)))) =
              [File (Div p ''valuecell_{time:YYYY-MM-DD}.log''),
               File (Div p ''error_{time:YYYY-MM-DD}.log'')]))"
      by metis
  qed
  have implicit: "log_dir a = None \<longrightarrow>
      resolved_log_dir a env d = get_log_dir env d \<and>
      (enable_file a \<longrightarrow>
         (\<forall>s. env ''LOG_DIR'' = Some s \<and> s \<noteq> [] \<longrightarrow>
            Path_mkdir (Path s) True True \<in> set (setup_logger_calls u a env d) \<and>
            map sink_target (filter is_file_sink (requested_sinks u a env d)) =
              [File (Div (Path s) ''valuecell_{time:YYYY-MM-DD}.log''),
               File (Div (Path s) ''error_{time:YYYY-MM-DD}.log'')]) \<and>
         (env ''LOG_DIR'' = None \<or> env ''LOG_DIR'' = Some [] \<longrightarrow>
            Path_mkdir (Div d ''logs'') True True \<in> set (setup_logger_calls u a env d) \<and>
            map sink_target (filter is_file_sink (requested_sinks u a env d)) =
              [File (Div (Div d ''logs'') ''valuecell_{time:YYYY-MM-DD}.log''),
               File (Div (Div d ''logs'') ''error_{time:YYYY-MM-DD}.log'')]))"
    using omitted from_env fallback mkdir targets by metis
  from explicit implicit show ?thesis by blast
qed

theorem setup_logger_explicit_dir_witness:
  "Path_mkdir (Path ''/var/log/vc'') True True \<in>
     set (setup_logger_calls id (default_args\<lparr>log_dir := Some (Path ''/var/log/vc'')\<rparr>)
            [''LOG_DIR'' \<mapsto> ''/tmp/x''] (Path ''/home/u/.valuecell'')) \<and>
   map sink_target (filter is_file_sink
     (requested_sinks id (default_args\<lparr>log_dir := Some (Path ''/var/log/vc'')\<rparr>)
        [''LOG_DIR'' \<mapsto> ''/tmp/x''] (Path ''/home/u/.valuecell''))) =
     [File (Div (Path ''/var/log/vc'') ''valuecell_{time:YYYY-MM-DD}.log''),
      File (Div (Path ''/var/log/vc'') ''error_{time:YYYY-MM-DD}.log'')] \<and>
   dirs (snd (setup_logger id (default_args\<lparr>log_dir := Some (Path ''/var/log/vc'')\<rparr>)
        [''LOG_DIR'' \<mapsto> ''/tmp/x''] (Path ''/home/u/.valuecell'')
        \<lparr>mkdir_denied = (\<lambda>p. False), add_refused = (\<lambda>s. False)\<rparr>
        \<lparr>handlers = [], dirs = {}, emitted = []\<rparr>)) = {Path ''/var/log/vc''} \<and>
   map sink_target (filter is_file_sink (handlers (snd
     (setup_logger id (default_args\<lparr>log_dir := Some (Path ''/var/log/vc'')\<rparr>)
        [''LOG_DIR'' \<mapsto> ''/tmp/x''] (Path ''/home/u/.valuecell'')
        \<lparr>mkdir_denied = (\<lambda>p. False), add_refused = (\<lambda>s. False)\<rparr>
        \<lparr>handlers = [], dirs = {}, emitted = []\<rparr>)))) =
     [File (Div (Path ''/var/log/vc'') ''valuecell_{time:YYYY-MM-DD}.log''),
      File (Div (Path ''/var/log/vc'') ''error_{time:YYYY-MM-DD}.log'')] \<and>
   Path_mkdir (Path ''/tmp/x'') True True \<in>
     set (setup_logger_calls id default_args
            [''LOG_DIR'' \<mapsto> ''/tmp/x''] (Path ''/home/u/.valuecell'')) \<and>
   Path_mkdir (Div (Path ''/home/u/.valuecell'') ''logs'') True True \<in>
     set (setup_logger_calls id default_args Map.empty (Path ''/home/u/.valuecell''))"
proof -
  let ?a = "default_args\<lparr>log_dir := Some (Path ''/var/log/vc'')\<rparr>"
  let ?env = "[''LOG_DIR'' \<mapsto> ''/tmp/x'']"
  let ?d = "Path ''/home/u/.valuecell''"
  let ?os = "\<lparr>mkdir_denied = (\<lambda>p. False), add_refused = (\<lambda>s. False)\<rparr>"
  let ?w = "\<lparr>handlers = [], dirs = {}, emitted = []\<rparr>"
  have given: "log_dir ?a = Some (Path ''/var/log/vc'')" "enable_file ?a"
    and omitted: "log_dir default_args = None" "enable_file default_args"
    by (simp_all add: default_args_def)
  have ok: "fst (setup_logger id ?a ?env ?d ?os ?w) = None"
    by (simp add: setup_logger_eq Let_def default_args_def effective_level_def
        getenv_default_def upper_samples)
  from setup_logger_explicit_dir [where u = id and a = ?a and env = ?env and d = ?d
      and os = ?os and w = ?w and v = None and d' = ?d]
    setup_logger_explicit_dir [where u = id and a = default_args and env = ?env and d = ?d]
    setup_logger_explicit_dir [where u = id and a = default_args and env = Map.empty and d = ?d]
    given omitted ok
  show ?thesis by simp
qed

text \<open>
  C4 claims that a failed directory creation leaves the registry as it was before the call.
  With the default arguments, one handler registered beforehand and a directory that cannot
  be created, the call raises \<open>OSError\<close>, no file sink is registered, and the registry
  holds the new console sink instead of the earlier handler.
\<close>

theorem setup_logger_mkdir_failure_counterexample:
  "fst (setup_logger id default_args Map.empty (Path ''/home/u/.valuecell'')
          \<lparr>mkdir_denied = (\<lambda>p. True), add_refused = (\<lambda>s. False)\<rparr>
          \<lparr>handlers = [console_sink ''WARNING''], dirs = {}, emitted = []\<rparr>) = Some OSError \<and>
   filter is_file_sink (handlers (snd (setup_logger id default_args Map.empty
          (Path ''/home/u/.valuecell'')
          \<lparr>mkdir_denied = (\<lambda>p. True), add_refused = (\<lambda>s. False)\<rparr>
          \<lparr>handlers = [console_sink ''WARNING''], dirs = {}, emitted = []\<rparr>))) = [] \<and>
   handlers (snd (setup_logger id default_args Map.empty (Path ''/home/u/.valuecell'')
          \<lparr>mkdir_denied = (\<lambda>p. True), add_refused = (\<lambda>s. False)\<rparr>
          \<lparr>handlers = [console_sink ''WARNING''], dirs = {}, emitted = []\<rparr>)) \<noteq>
     handlers \<lparr>handlers = [console_sink ''WARNING''], dirs = {}, emitted = []\<rparr>"
proof -
  have differ: "console_sink ''INFO'' \<noteq> console_sink ''WARNING''"
    by (simp add: console_sink_def)
  have run: "setup_logger id default_args Map.empty (Path ''/home/u/.valuecell'')
          \<lparr>mkdir_denied = (\<lambda>p. True), add_refused = (\<lambda>s. False)\<rparr>
          \<lparr>handlers = [console_sink ''WARNING''], dirs = {}, emitted = []\<rparr> =
      (Some OSError, \<lparr>handlers = [console_sink ''INFO''], dirs = {}, emitted = []\<rparr>)"
    by (simp add: setup_logger_eq Let_def default_args_def effective_level_def
        getenv_default_def upper_samples)
  from differ show ?thesis by (simp add: run)
qed

text \<open>
  C4, as the code has it. When file output is enabled and the directory cannot be created,
  the exception of \<open>mkdir\<close> leaves \<open>setup_logger\<close> uncaught and no file sink is
  registered. By then the handlers registered before the call are gone and, when console
  output is enabled, the new console sink is in place: the registry holds that console sink
  or nothing. The directories and the emitted records are as before the call.
\<close>

theorem setup_logger_mkdir_failure:
  "enable_file a \<Longrightarrow>
   resolved_log_dir a env d \<notin> dirs w \<Longrightarrow>
   mkdir_denied os (resolved_log_dir a env d) \<Longrightarrow>
   enable_console a \<longrightarrow> accepted os (console_sink (effective_level u a env)) \<Longrightarrow>
     fst (setup_logger u a env d os w) = Some OSError \<and>
     handlers (snd (setup_logger u a env d os w)) =
       (if enable_console a then [console_sink (effective_level u a env)] else []) \<and>
     dirs (snd (setup_logger u a env d os w)) = dirs w \<and>
     emitted (snd (setup_logger u a env d os w)) = emitted w"
  by (auto simp: setup_logger_eq Let_def accepted_def)

theorem setup_logger_mkdir_failure_witness:
  "enable_file default_args \<and>
   fst (setup_logger id default_args Map.empty (Path ''/home/u/.valuecell'')
     \<lparr>mkdir_denied = (\<lambda>p. True), add_refused = (\<lambda>s. False)\<rparr>
     \<lparr>handlers = [console_sink ''WARNING''], dirs = {}, emitted = []\<rparr>) = Some OSError \<and>
   handlers (snd (setup_logger id default_args Map.empty (Path ''/home/u/.valuecell'')
     \<lparr>mkdir_denied = (\<lambda>p. True), add_refused = (\<lambda>s. False)\<rparr>
     \<lparr>handlers = [console_sink ''WARNING''], dirs = {}, emitted = []\<rparr>)) = [console_sink ''INFO'']"
proof -
  let ?os = "\<lparr>mkdir_denied = (\<lambda>p. True), add_refused = (\<lambda>s. False)\<rparr>"
  let ?w = "\<lparr>handlers = [console_sink ''WARNING''], dirs = {}, emitted = []\<rparr>"
  let ?d = "Path ''/home/u/.valuecell''"
  have lvl: "effective_level id default_args Map.empty = ''INFO''"
    by (simp add: effective_level_def default_args_def getenv_default_def upper_samples)
  have h0: "enable_console default_args" by (simp add: default_args_def)
  have h1: "enable_file default_args" by (simp add: default_args_def)
  have h2: "resolved_log_dir default_args Map.empty ?d \<notin> dirs ?w" by simp
  have h3: "mkdir_denied ?os (resolved_log_dir default_args Map.empty ?d)" by simp
  have h4: "enable_console default_args \<longrightarrow>
      accepted ?os (console_sink (effective_level id default_args Map.empty))"
    by (simp add: lvl accepted_def)
  from setup_logger_mkdir_failure [OF h1 h2 h3 h4] h0 h1 show ?thesis
    by (simp add: lvl)
qed

text \<open>
  C5. After a call with file output enabled that returns normally, the file sinks in the
  registry are exactly two: the combined sink at level \<open>DEBUG\<close> writing to
  \<open>valuecell_{time:YYYY-MM-DD}.log\<close> and the error sink at level \<open>ERROR\<close> writing to
  \<open>error_{time:YYYY-MM-DD}.log\<close>, both in the resolved directory, both with the effective
  rotation and retention, the compression argument and \<open>enqueue=True\<close>. A record whose
  severity is that of \<open>ERROR\<close> or higher reaches both; an \<open>INFO\<close> record reaches the
  combined sink only.
\<close>

theorem setup_logger_file_sinks:
  "enable_file a \<Longrightarrow> fst (setup_logger u a env d os w) = None \<Longrightarrow>
     (let dir = resolved_log_dir a env d;
          rot = effective_rotation a env;
          ret = effective_retention a env;
          combined = combined_sink dir rot ret (compression a);
          errors = error_sink dir rot ret (compression a);
          files = filter is_file_sink (handlers (snd (setup_logger u a env d os w)))
      in files = [combined, errors] \<and>
         sink_level combined = ''DEBUG'' \<and>
         sink_target combined = File (Div dir ''valuecell_{time:YYYY-MM-DD}.log'') \<and>
         sink_level errors = ''ERROR'' \<and>
         sink_target errors = File (Div dir ''error_{time:YYYY-MM-DD}.log'') \<and>
         (\<forall>s \<in> set files.
            sink_rotation s = Some rot \<and> sink_retention s = Some ret \<and>
            sink_compression s = Some (compression a) \<and> sink_enqueue s = Some True) \<and>
         (\<forall>lvl n. level_no lvl = Some n \<and> 40 \<le> n \<longrightarrow>
            filter (\<lambda>s. receives s lvl) files = [combined, errors]) \<and>
         filter (\<lambda>s. receives s ''INFO'') files = [combined])"
proof -
  assume ef: "enable_file a" and ok: "fst (setup_logger u a env d os w) = None"
  have files: "filter is_file_sink (handlers (snd (setup_logger u a env d os w))) =
       [combined_sink (resolved_log_dir a env d) (effective_rotation a env)
          (effective_retention a env) (compression a),
        error_sink (resolved_log_dir a env d) (effective_rotation a env)
          (effective_retention a env) (compression a)]"
    using ef ok by (auto simp: setup_logger_eq Let_def split: if_splits)
  show ?thesis
    by (simp add: Let_def files file_sink_fields receives_def)
qed

theorem setup_logger_file_sinks_witness:
  "enable_file default_args \<and>
   fst (setup_logger id default_args Map.empty (Path ''/home/u/.valuecell'')
     \<lparr>mkdir_denied = (\<lambda>p. False), add_refused = (\<lambda>s. False)\<rparr>
     \<lparr>handlers = [], dirs = {}, emitted = []\<rparr>) = None \<and>
   filter is_file_sink (handlers (snd (setup_logger id default_args Map.empty
     (Path ''/home/u/.valuecell'')
     \<lparr>mkdir_denied = (\<lambda>p. False), add_refused = (\<lambda>s. False)\<rparr>
     \<lparr>handlers = [], dirs = {}, emitted = []\<rparr>))) =
     [combined_sink (Div (Path ''/home/u/.valuecell'') ''logs'') ''10 MB'' ''30 days'' ''zip'',
      error_sink (Div (Path ''/home/u/.valuecell'') ''logs'') ''10 MB'' ''30 days'' ''zip''] \<and>
   filter (\<lambda>s. receives s ''INFO'') (filter is_file_sink (handlers (snd (setup_logger
     id default_args Map.empty (Path ''/home/u/.valuecell'')
     \<lparr>mkdir_denied = (\<lambda>p. False), add_refused = (\<lambda>s. False)\<rparr>
     \<lparr>handlers = [], dirs = {}, emitted = []\<rparr>)))) =
     [combined_sink (Div (Path ''/home/u/.valuecell'') ''logs'') ''10 MB'' ''30 days'' ''zip'']"
proof -
  have h1: "enable_file default_args" by (simp add: default_args_def)
  have h2: "fst (setup_logger id default_args Map.empty (Path ''/home/u/.valuecell'')
     \<lparr>mkdir_denied = (\<lambda>p. False), add_refused = (\<lambda>s. False)\<rparr>
     \<lparr>handlers = [], dirs = {}, emitted = []\<rparr>) = None"
    by (simp add: sample_run)
  have vals: "resolved_log_dir default_args Map.empty (Path ''/home/u/.valuecell'') =
      Div (Path ''/home/u/.valuecell'') ''logs''"
    "effective_rotation default_args Map.empty = ''10 MB''"
    "effective_retention default_args Map.empty = ''30 days''"
    "compression default_args = ''zip''"
    by (simp_all add: default_args_def resolved_log_dir_def get_log_dir_def getenv_def
        effective_rotation_def effective_retention_def getenv_default_def)
  from setup_logger_file_sinks [OF h1 h2] h1 h2 show ?thesis
    unfolding Let_def vals by blast
qed

text \<open>
  C6. With file output enabled, \<open>mkdir(parents=True, exist_ok=True)\<close> on the resolved
  directory comes before the first registration of a file sink. So in every run, finished
  or stopped by an exception, a file sink in the registry means the directory exists; after
  a call that returns normally the directory exists; and when it existed already the set
  of directories is unchanged.
\<close>

theorem setup_logger_mkdir_first:
  "enable_file a \<Longrightarrow>
     Path_mkdir (resolved_log_dir a env d) True True \<in>
       set (takeWhile (\<lambda>c. \<not> is_file_add c) (setup_logger_calls u a env d)) \<and>
     (filter is_file_sink (handlers (snd (setup_logger u a env d os w))) \<noteq> [] \<longrightarrow>
        resolved_log_dir a env d \<in> dirs (snd (setup_logger u a env d os w))) \<and>
     (fst (setup_logger u a env d os w) = None \<longrightarrow>
        resolved_log_dir a env d \<in> dirs (snd (setup_logger u a env d os w))) \<and>
     (resolved_log_dir a env d \<in> dirs w \<longrightarrow>
        dirs (snd (setup_logger u a env d os w)) = dirs w)"
proof -
  assume ef: "enable_file a"
  have order: "Path_mkdir (resolved_log_dir a env d) True True \<in>
       set (takeWhile (\<lambda>c. \<not> is_file_add c) (setup_logger_calls u a env d))"
    using ef by (simp add: setup_logger_calls_def Let_def is_file_add_def)
  have inv: "filter is_file_sink (handlers (snd (setup_logger u a env d os w))) \<noteq> [] \<longrightarrow>
        resolved_log_dir a env d \<in> dirs (snd (setup_logger u a env d os w))"
    using ef by (simp add: setup_logger_eq Let_def)
  have post: "fst (setup_logger u a env d os w) = None \<longrightarrow>
        resolved_log_dir a env d \<in> dirs (snd (setup_logger u a env d os w))"
    using ef by (simp add: setup_logger_eq Let_def)
  have noop: "resolved_log_dir a env d \<in> dirs w \<longrightarrow>
        dirs (snd (setup_logger u a env d os w)) = dirs w"
    using ef by (simp add: setup_logger_eq Let_def insert_absorb)
  from order inv post noop show ?thesis by blast
qed

theorem setup_logger_mkdir_first_witness:
  "enable_file default_args \<and>
   Path_mkdir (Div (Path ''/home/u/.valuecell'') ''logs'') True True \<in>
     set (takeWhile (\<lambda>c. \<not> is_file_add c)
       (setup_logger_calls id default_args Map.empty (Path ''/home/u/.valuecell''))) \<and>
   Div (Path ''/home/u/.valuecell'') ''logs'' \<in>
     dirs (snd (setup_logger id default_args Map.empty (Path ''/home/u/.valuecell'')
       \<lparr>mkdir_denied = (\<lambda>p. False), add_refused = (\<lambda>s. False)\<rparr>
       \<lparr>handlers = [], dirs = {}, emitted = []\<rparr>))"
proof -
  have h1: "enable_file default_args" by (simp add: default_args_def)
  have ok: "fst (setup_logger id default_args Map.empty (Path ''/home/u/.valuecell'')
     \<lparr>mkdir_denied = (\<lambda>p. False), add_refused = (\<lambda>s. False)\<rparr>
     \<lparr>handlers = [], dirs = {}, emitted = []\<rparr>) = None"
    by (simp add: sample_run)
  have dir: "resolved_log_dir default_args Map.empty (Path ''/home/u/.valuecell'') =
      Div (Path ''/home/u/.valuecell'') ''logs''"
    by (simp add: default_args_def resolved_log_dir_def get_log_dir_def getenv_def)
  from setup_logger_mkdir_first [OF h1, where u = id and env = Map.empty
      and d = "Path ''/home/u/.valuecell''"
      and os = "\<lparr>mkdir_denied = (\<lambda>p. False), add_refused = (\<lambda>s. False)\<rparr>"
      and w = "\<lparr>handlers = [], dirs = {}, emitted = []\<rparr>"] h1 ok
  show ?thesis by (simp add: dir)
qed

text \<open>
  C7 claims a registered console sink for every call with console output enabled. With the
  default arguments and \<open>LOG_LEVEL=verbose\<close> the effective level is \<open>VERBOSE\<close>, which is
  not a level of the backend: the registration of the console sink raises \<open>ValueError\<close>
  and the registry holds no console sink.
\<close>

theorem setup_logger_console_sink_counterexample:
  "enable_console default_args \<and>
   fst (setup_logger id default_args [''LOG_LEVEL'' \<mapsto> ''verbose''] (Path ''/home/u/.valuecell'')
          \<lparr>mkdir_denied = (\<lambda>p. False), add_refused = (\<lambda>s. False)\<rparr>
          \<lparr>handlers = [], dirs = {}, emitted = []\<rparr>) = Some ValueError \<and>
   filter is_console_sink (handlers (snd (setup_logger id default_args
          [''LOG_LEVEL'' \<mapsto> ''verbose''] (Path ''/home/u/.valuecell'')
          \<lparr>mkdir_denied = (\<lambda>p. False), add_refused = (\<lambda>s. False)\<rparr>
          \<lparr>handlers = [], dirs = {}, emitted = []\<rparr>))) = []"
proof -
  have lvl: "effective_level id default_args [''LOG_LEVEL'' \<mapsto> ''verbose''] = ''VERBOSE''"
    by (simp add: effective_level_def getenv_default_def upper_samples)
  have unknown: "level_no ''VERBOSE'' = None"
    by (simp add: level_no_def)
  have ec: "enable_console default_args"
    by (simp add: default_args_def)
  have run: "setup_logger id default_args [''LOG_LEVEL'' \<mapsto> ''verbose'']
          (Path ''/home/u/.valuecell'')
          \<lparr>mkdir_denied = (\<lambda>p. False), add_refused = (\<lambda>s. False)\<rparr>
          \<lparr>handlers = [], dirs = {}, emitted = []\<rparr> =
      (Some ValueError, \<lparr>handlers = [], dirs = {}, emitted = []\<rparr>)"
    by (simp add: setup_logger_eq Let_def lvl unknown ec)
  from ec show ?thesis by (simp add: run)
qed

text \<open>
  C7, as the code has it. With console output enabled, \<open>setup_logger\<close> asks for exactly one
  console sink: standard error, \<open>colorize=True\<close>, the effective level, and a format with
  the fields time, level, name, function, line and message. When the backend accepts that
  sink (the effective level is one of its level names and the sink can be added), and so
  after every call that returns normally, it is the one console sink in the registry. When
  the backend does not accept it, the call raises and the registry holds no console sink.
\<close>

theorem setup_logger_console_sink:
  "enable_console a \<Longrightarrow>
     filter is_console_add (setup_logger_calls u a env d) =
       [Logger_add (console_sink (effective_level u a env))] \<and>
     (accepted os (console_sink (effective_level u a env)) \<or>
      fst (setup_logger u a env d os w) = None \<longrightarrow>
        filter is_console_sink (handlers (snd (setup_logger u a env d os w))) =
          [console_sink (effective_level u a env)]) \<and>
     (\<not> accepted os (console_sink (effective_level u a env)) \<longrightarrow>
        fst (setup_logger u a env d os w) =
          Some (if level_no (effective_level u a env) = None then ValueError else OSError) \<and>
        handlers (snd (setup_logger u a env d os w)) = []) \<and>
     sink_target (console_sink (effective_level u a env)) = Stderr \<and>
     sink_colorize (console_sink (effective_level u a env)) = Some True \<and>
     sink_level (console_sink (effective_level u a env)) = effective_level u a env \<and>
     sink_format (console_sink (effective_level u a env)) = console_format \<and>
     sublist ''{time'' console_format \<and> sublist ''{level'' console_format \<and>
     sublist ''{name}'' console_format \<and> sublist ''{function}'' console_format \<and>
     sublist ''{line}'' console_format \<and> sublist ''{message}'' console_format"
proof -
  assume ec: "enable_console a"
  have calls: "filter is_console_add (setup_logger_calls u a env d) =
       [Logger_add (console_sink (effective_level u a env))]"
    using ec by (simp add: setup_logger_calls_def Let_def is_console_add_def)
  have reg: "accepted os (console_sink (effective_level u a env)) \<or>
      fst (setup_logger u a env d os w) = None \<longrightarrow>
        filter is_console_sink (handlers (snd (setup_logger u a env d os w))) =
          [console_sink (effective_level u a env)]"
    using ec by (auto simp: setup_logger_eq Let_def accepted_def split: if_splits)
  have rejected: "\<not> accepted os (console_sink (effective_level u a env)) \<longrightarrow>
        fst (setup_logger u a env d os w) =
          Some (if level_no (effective_level u a env) = None then ValueError else OSError) \<and>
        handlers (snd (setup_logger u a env d os w)) = []"
    using ec by (auto simp: setup_logger_eq Let_def accepted_def)
  have fields: "sink_target (console_sink (effective_level u a env)) = Stderr"
    "sink_colorize (console_sink (effective_level u a env)) = Some True"
    "sink_level (console_sink (effective_level u a env)) = effective_level u a env"
    "sink_format (console_sink (effective_level u a env)) = console_format"
    by (simp_all add: console_sink_def)
  from calls reg rejected fields console_format_fields show ?thesis by blast
qed

theorem setup_logger_console_sink_witness:
  "enable_console default_args \<and>
   accepted \<lparr>mkdir_denied = (\<lambda>p. False), add_refused = (\<lambda>s. False)\<rparr> (console_sink ''INFO'') \<and>
   filter is_console_add
     (setup_logger_calls id default_args Map.empty (Path ''/home/u/.valuecell'')) =
     [Logger_add (console_sink ''INFO'')] \<and>
   filter is_console_sink (handlers (snd (setup_logger id default_args Map.empty
     (Path ''/home/u/.valuecell'')
     \<lparr>mkdir_denied = (\<lambda>p. False), add_refused = (\<lambda>s. False)\<rparr>
     \<lparr>handlers = [], dirs = {}, emitted = []\<rparr>))) = [console_sink ''INFO''] \<and>
   \<not> accepted \<lparr>mkdir_denied = (\<lambda>p. False), add_refused = (\<lambda>s. False)\<rparr>
     (console_sink ''VERBOSE'') \<and>
   fst (setup_logger id default_args [''LOG_LEVEL'' \<mapsto> ''verbose'']
     (Path ''/home/u/.valuecell'')
     \<lparr>mkdir_denied = (\<lambda>p. False), add_refused = (\<lambda>s. False)\<rparr>
     \<lparr>handlers = [console_sink ''WARNING''], dirs = {}, emitted = []\<rparr>) = Some ValueError \<and>
   handlers (snd (setup_logger id default_args [''LOG_LEVEL'' \<mapsto> ''verbose'']
     (Path ''/home/u/.valuecell'')
     \<lparr>mkdir_denied = (\<lambda>p. False), add_refused = (\<lambda>s. False)\<rparr>
     \<lparr>handlers = [console_sink ''WARNING''], dirs = {}, emitted = []\<rparr>)) = []"
proof -
  let ?os = "\<lparr>mkdir_denied = (\<lambda>p. False), add_refused = (\<lambda>s. False)\<rparr>"
  let ?d = "Path ''/home/u/.valuecell''"
  have h1: "enable_console default_args" by (simp add: default_args_def)
  have lvl: "effective_level id default_args Map.empty = ''INFO''"
    by (simp add: effective_level_def default_args_def getenv_default_def upper_samples)
  have lvl': "effective_level id default_args [''LOG_LEVEL'' \<mapsto> ''verbose''] = ''VERBOSE''"
    by (simp add: effective_level_def getenv_default_def upper_samples)
  have unknown: "level_no ''VERBOSE'' = None"
    by (simp add: level_no_def)
  have acc: "accepted ?os (console_sink ''INFO'')"
    and rej: "\<not> accepted ?os (console_sink ''VERBOSE'')"
    by (simp_all add: accepted_def unknown)
  from setup_logger_console_sink [OF h1, where u = id and env = Map.empty and d = ?d
      and os = ?os and w = "\<lparr>handlers = [], dirs = {}, emitted = []\<rparr>"]
    setup_logger_console_sink [OF h1, where u = id and env = "[''LOG_LEVEL'' \<mapsto> ''verbose'']"
      and d = ?d and os = ?os
      and w = "\<lparr>handlers = [console_sink ''WARNING''], dirs = {}, emitted = []\<rparr>"]
    h1 acc rej unknown
  show ?thesis by (simp add: lvl lvl')
qed

end
